theory Spec2Isabelle
  imports Complex_Main "HOL-Library.Word" "HOL-Library.Sublist" "HOL-Library.AList"
begin

section \<open>Shared vocabulary: errors, panics, machine integers\<close>

text \<open>
  Go's \<^verbatim>\<open>error\<close> values that the two packages create or pass on.
  \<^item> \<open>errors_New s\<close> is \<^verbatim>\<open>errors.New(s)\<close>, and also \<^verbatim>\<open>fmt.Errorf\<close> with no
    \<^verbatim>\<open>%w\<close> verb (which calls \<^verbatim>\<open>errors.New\<close> on the formatted text);
  \<^item> \<open>wrapError p e\<close> is \<^verbatim>\<open>fmt.Errorf(p + "%w", e)\<close>: the text \<open>p\<close> followed by the
    message of \<open>e\<close>, unwrapping to \<open>e\<close>;
  \<^item> \<open>io_EOF\<close> is the sentinel \<^verbatim>\<open>io.EOF\<close>;
  \<^item> \<open>External s\<close> is any error value handed over by the standard library or by a
    collaborator (transport, context, decoder), named by its message.
\<close>

datatype error =
    errors_New string
  | wrapError string error
  | io_EOF
  | External string

fun Error_msg :: "error \<Rightarrow> string" where
  "Error_msg (errors_New s) = s"
| "Error_msg (wrapError p e) = p @ Error_msg e"
| "Error_msg io_EOF = ''EOF''"
| "Error_msg (External s) = s"

text \<open>\<^verbatim>\<open>errors.Is(err, io.EOF)\<close>: walks the chain of wrapped errors.\<close>

fun errors_Is_EOF :: "error \<Rightarrow> bool" where
  "errors_Is_EOF io_EOF = True"
| "errors_Is_EOF (wrapError p e) = errors_Is_EOF e"
| "errors_Is_EOF (errors_New s) = False"
| "errors_Is_EOF (External s) = False"

text \<open>A call either returns or panics (nil dereference, failed type assertion,
  assignment into a nil map).\<close>

datatype 'a outcome = Returns 'a | Panics

type_synonym int64 = "64 word"

section \<open>Package auth: the JWT token (src/unnamed/part\_001)\<close>

text \<open>
  What \<^verbatim>\<open>json.Unmarshal\<close> stores in an \<^verbatim>\<open>interface{}\<close>: nil, bool, float64, string,
  a slice or a map. Every finite float64 is a real number, so a number is carried as a
  \<open>real\<close>; statements over all reals cover all float64 values, and the concrete values
  used below (whole numbers of small size) are float64 values.
\<close>

datatype json_value =
    JNull
  | JBool bool
  | JNumber real
  | JString string
  | JArray "json_value list"
  | JObject "(string \<times> json_value) list"

text \<open>
  The standard-library functions that \<^verbatim>\<open>SetExpireTime\<close> calls are not code of this
  repository; they are parameters of the model, so every theorem holds whatever they
  answer.
  \<^item> \<open>DecodeString\<close>: \<^verbatim>\<open>base64.URLEncoding.DecodeString\<close>;
  \<^item> \<open>Unmarshal\<close>: \<^verbatim>\<open>json.Unmarshal(b, &m)\<close> with \<^verbatim>\<open>m map[string]interface{}\<close>
    (a nil map reads like the empty one);
  \<^item> \<open>int64_unrepresentable\<close>: the result of the conversion \<^verbatim>\<open>int64(f)\<close> when the
    truncated \<open>f\<close> is outside the int64 range, which the language leaves to the
    implementation.
\<close>

record auth_lib =
  DecodeString :: "string \<Rightarrow> error + string"
  Unmarshal :: "string \<Rightarrow> error + (string \<rightharpoonup> json_value)"
  int64_unrepresentable :: "real \<Rightarrow> int64"

text \<open>\<^verbatim>\<open>strings.Split(s, sep)\<close> for a separator of one byte (the code splits at
  \<^verbatim>\<open>"."\<close>): the pieces between the separators, one more than there are separators.\<close>

fun strings_Split :: "string \<Rightarrow> char \<Rightarrow> string list" where
  "strings_Split [] sep = [[]]"
| "strings_Split (c # cs) sep =
     (if c = sep then [] # strings_Split cs sep
      else (case strings_Split cs sep of
              [] \<Rightarrow> [[c]]
            | p # ps \<Rightarrow> (c # p) # ps))"

definition strings_Repeat :: "string \<Rightarrow> nat \<Rightarrow> string" where
  "strings_Repeat s n = concat (replicate n s)"

text \<open>The conversion \<^verbatim>\<open>int64(f)\<close> of a float64: the fraction is dropped (towards zero).\<close>

definition truncate_real :: "real \<Rightarrow> int" where
  "truncate_real f = (if 0 \<le> f then \<lfloor>f\<rfloor> else \<lceil>f\<rceil>)"

definition float64_to_int64 :: "auth_lib \<Rightarrow> real \<Rightarrow> int64" where
  "float64_to_int64 lib f =
     (if - (2 ^ 63) \<le> truncate_real f \<and> truncate_real f < 2 ^ 63
      then word_of_int (truncate_real f)
      else int64_unrepresentable lib f)"

record JWTToken =
  token :: string
  expiredAt :: int64

text \<open>The padding step of \<^verbatim>\<open>SetExpireTime\<close> (its lines 54 to 56): the payload is filled
  with \<^verbatim>\<open>=\<close> up to a length that is a multiple of 4.\<close>

definition padded :: "string \<Rightarrow> string" where
  "padded payload =
     (let l = length payload mod 4 in
      if l > 0 then payload @ strings_Repeat ''='' (4 - l) else payload)"

text \<open>\<^verbatim>\<open>SetExpireTime\<close> has a pointer receiver: it returns the updated token together
  with its error result. The type assertion \<^verbatim>\<open>ts.(float64)\<close> has no \<^verbatim>\<open>ok\<close> result, so
  it panics on every value that is not a number.\<close>

definition SetExpireTime :: "auth_lib \<Rightarrow> JWTToken \<Rightarrow> (JWTToken \<times> error option) outcome" where
  "SetExpireTime lib t =
     (let parts = strings_Split (token t) CHR ''.'' in
      if length parts \<noteq> 3 then Returns (t, Some (errors_New ''need jwt token''))
      else
        let payload = padded (parts ! 1)
        in case DecodeString lib payload of
             Inl err \<Rightarrow> Returns (t, Some (wrapError ''decode jwt token error: '' err))
           | Inr b \<Rightarrow>
              (case Unmarshal lib b of
                 Inl err \<Rightarrow> Returns (t, Some (wrapError ''unmarshal decode jwt token error: '' err))
               | Inr m \<Rightarrow>
                  (case m ''exp'' of
                     None \<Rightarrow> Returns (t, None)
                   | Some (JNumber f) \<Rightarrow> Returns (t\<lparr>expiredAt := float64_to_int64 lib f\<rparr>, None)
                   | Some _ \<Rightarrow> Panics)))"

definition NewJWTToken :: "auth_lib \<Rightarrow> string \<Rightarrow> (error + JWTToken) outcome" where
  "NewJWTToken lib tok =
     (let t = \<lparr>token = tok, expiredAt = 0\<rparr> in
      case SetExpireTime lib t of
        Panics \<Rightarrow> Panics
      | Returns (t', Some err) \<Rightarrow> Returns (Inl (wrapError ''new jwt token error: '' err))
      | Returns (t', None) \<Rightarrow> Returns (Inr t'))"

text \<open>\<^verbatim>\<open>time.Now().Unix()\<close> is the argument \<open>now\<close>; the sum \<^verbatim>\<open>now + 10\<close> is int64
  addition, which wraps, and \<^verbatim>\<open>>\<close> compares signed values.\<close>

definition almostExpired :: "int64 \<Rightarrow> JWTToken \<Rightarrow> bool" where
  "almostExpired now t =
     (if expiredAt t = 0 then True
      else sint (expiredAt t) < sint (now + 10))"

text \<open>The receiver of \<^verbatim>\<open>Valid\<close> may be the nil pointer (\<open>None\<close>).\<close>

definition Valid :: "int64 \<Rightarrow> JWTToken option \<Rightarrow> bool" where
  "Valid now t =
     (case t of
        None \<Rightarrow> False
      | Some T \<Rightarrow> token T \<noteq> [] \<and> \<not> almostExpired now T)"

section \<open>Package httpx: the API client (src/client.go)\<close>

subsection \<open>The data of net/http that the client touches\<close>

text \<open>\<^verbatim>\<open>url.URL\<close>: the parts of a URL that an HTTP request carries. The code itself
  reads and writes only \<^verbatim>\<open>RawQuery\<close>; everything else goes through the library.\<close>

record URL =
  Scheme :: string
  Host :: string
  Path :: string
  RawQuery :: string

text \<open>\<^verbatim>\<open>url.Values\<close> and \<^verbatim>\<open>http.Header\<close> as values: a map from a key to its list of
  values, kept as an association list. \<^verbatim>\<open>Set\<close> replaces whatever the key held with
  the single new value. (\<^verbatim>\<open>Header.Set\<close> first brings the key into its canonical
  form; the keys the code uses are written in that form already.)\<close>

type_synonym Values = "(string \<times> string list) list"

definition Values_Set :: "Values \<Rightarrow> string \<Rightarrow> string \<Rightarrow> Values" where
  "Values_Set q k v = AList.update k [v] q"

definition Header_Set :: "Values \<Rightarrow> string \<Rightarrow> string \<Rightarrow> Values" where
  "Header_Set h k v = AList.update k [v] h"

text \<open>An \<^verbatim>\<open>io.Reader\<close> as the stream it delivers: the bytes it yields, and then the
  error that ends the stream. A stream ends cleanly by reporting \<^verbatim>\<open>io.EOF\<close>; \<open>None\<close>
  stands for that too. \<^verbatim>\<open>ioutil.ReadAll\<close> returns the bytes read, and the error unless
  it is \<^verbatim>\<open>io.EOF\<close> itself (a clean end of stream is no error).\<close>

record Reader =
  content :: string
  failure :: "error option"

definition ioutil_ReadAll :: "Reader \<Rightarrow> string \<times> error option" where
  "ioutil_ReadAll r =
     (content r,
      case failure r of
        None \<Rightarrow> None
      | Some e \<Rightarrow> if e = io_EOF then None else Some e)"

text \<open>\<^verbatim>\<open>http.Request\<close>. The type of the URL, header and body fields is left open: the
  client below works on requests it has just built and treats them as values; the
  transport of package auth works on requests shared with its caller, whose header
  is a reference into a store.\<close>

record ('u, 'h, 'b) Request =
  Method :: string
  URL :: 'u
  Header :: 'h
  ReqBody :: 'b

text \<open>A request as the client sees it: \<^verbatim>\<open>URL\<close> is a pointer and may be nil.\<close>

type_synonym http_Request = "(URL option, Values, Reader option) Request"

text \<open>\<^verbatim>\<open>http.Response\<close>; \<^verbatim>\<open>Request\<close> is a pointer to the request that was sent to
  obtain it. The standard transport sets it; \<^verbatim>\<open>http.Client\<close> does not, so with
  another \<^verbatim>\<open>RoundTripper\<close> it may be nil.\<close>

record http_Response =
  StatusCode :: int
  Body :: Reader
  Request :: "http_Request option"

text \<open>\<^verbatim>\<open>context.Context\<close>, as far as \<^verbatim>\<open>Do\<close> looks at it: \<open>None\<close> while the context
  is not done, and the value of \<^verbatim>\<open>ctx.Err()\<close> once it is.\<close>

type_synonym Context = "error option"

subsection \<open>Client\<close>

text \<open>\<^verbatim>\<open>BaseURL\<close> is a pointer and may be nil. \<^verbatim>\<open>httpClient\<close> is the behaviour of the
  \<^verbatim>\<open>*http.Client\<close> that \<^verbatim>\<open>New\<close> and \<^verbatim>\<open>Copy\<close> store (never nil): its \<^verbatim>\<open>Do\<close> answers
  a request with an error or with a response.\<close>

record Client =
  BaseURL :: "URL option"
  UserAgent :: string
  httpClient :: "http_Request \<Rightarrow> error + http_Response"

text \<open>
  The standard library as the client uses it; again parameters of the model.
  \<^item> \<open>strconv_Quote\<close>: the verb \<^verbatim>\<open>%q\<close> of \<^verbatim>\<open>fmt\<close>;
  \<^item> \<open>URL_Parse\<close>: \<^verbatim>\<open>(*url.URL).Parse\<close>, the resolution of a reference against the
    base URL (which dereferences its receiver);
  \<^item> \<open>URL_Query\<close>, \<open>Values_Encode\<close>, \<open>URL_String\<close>: \<^verbatim>\<open>u.Query()\<close>, \<^verbatim>\<open>q.Encode()\<close>,
    \<^verbatim>\<open>u.String()\<close>;
  \<^item> \<open>json_Encode\<close>: \<^verbatim>\<open>json.NewEncoder(buf).Encode(body)\<close>, giving the bytes written;
  \<^item> \<open>http_NewRequest\<close>: \<^verbatim>\<open>http.NewRequest\<close>;
  \<^item> \<open>json_Decode\<close>: \<^verbatim>\<open>json.NewDecoder(r).Decode(v)\<close>, giving the new value of the
    target and the error;
  \<^item> \<open>io_Copy\<close>: \<^verbatim>\<open>io.Copy(w, r)\<close>, giving the new state of the writer, the count
    and the error.
\<close>

record ('b, 'v, 'w) httpx_lib =
  strconv_Quote :: "string \<Rightarrow> string"
  URL_Parse :: "URL option \<Rightarrow> string \<Rightarrow> (error + URL) outcome"
  URL_Query :: "URL \<Rightarrow> Values"
  Values_Encode :: "Values \<Rightarrow> string"
  URL_String :: "URL \<Rightarrow> string"
  json_Encode :: "'b \<Rightarrow> error + string"
  http_NewRequest :: "string \<Rightarrow> string \<Rightarrow> Reader option \<Rightarrow> error + http_Request"
  json_Decode :: "Reader \<Rightarrow> 'v \<Rightarrow> 'v \<times> error option"
  io_Copy :: "'w \<Rightarrow> Reader \<Rightarrow> 'w \<times> int \<times> error option"

definition strings_HasPrefix :: "string \<Rightarrow> string \<Rightarrow> bool" where
  "strings_HasPrefix s pre = (take (length pre) s = pre)"

text \<open>\<^verbatim>\<open>params\<close> is a map that may be nil (\<open>None\<close>); the loop visits its entries in
  some order, here the order of the list. \<^verbatim>\<open>body\<close> is an \<^verbatim>\<open>interface{}\<close> that may be
  nil.\<close>

definition NewRequest ::
  "('b, 'v, 'w) httpx_lib \<Rightarrow> Client \<Rightarrow> string \<Rightarrow> string \<Rightarrow> (string \<times> string) list option \<Rightarrow>
   'b option \<Rightarrow> (error + http_Request) outcome" where
  "NewRequest lib c method urlStr params body =
     (if \<not> strings_HasPrefix urlStr ''/'' then
        Returns (Inl (errors_New
          (''httpx new request error: url must have a preceding slash, but '' @
           strconv_Quote lib urlStr @ '' does not'')))
      else
        case URL_Parse lib (BaseURL c) urlStr of
          Panics \<Rightarrow> Panics
        | Returns (Inl err) \<Rightarrow> Returns (Inl (wrapError ''httpx new request error: '' err))
        | Returns (Inr u0) \<Rightarrow>
           (let u = (case params of
                       None \<Rightarrow> u0
                     | Some ps \<Rightarrow>
                        u0\<lparr>RawQuery :=
                          Values_Encode lib
                            (fold (\<lambda>(k, v) q. Values_Set q k v) ps (URL_Query lib u0))\<rparr>)
            in case (case body of
                       None \<Rightarrow> Inr None
                     | Some bv \<Rightarrow>
                        (case json_Encode lib bv of
                           Inl err \<Rightarrow> Inl err
                         | Inr js \<Rightarrow> Inr (Some \<lparr>content = js, failure = None\<rparr>))) of
                 Inl err \<Rightarrow> Returns (Inl (wrapError ''httpx new request error: '' err))
               | Inr buf \<Rightarrow>
                  (case http_NewRequest lib method (URL_String lib u) buf of
                     Inl err \<Rightarrow> Returns (Inl (wrapError ''httpx new request error: '' err))
                   | Inr req0 \<Rightarrow>
                      (let req1 = (if body \<noteq> None
                                   then req0\<lparr>Header :=
                                          Header_Set (Header req0) ''Content-Type'' ''application/json''\<rparr>
                                   else req0);
                           req2 = req1\<lparr>Header := Header_Set (Header req1) ''Accept'' ''application/json''\<rparr>;
                           req3 = req2\<lparr>Header := Header_Set (Header req2) ''User-Agent'' (UserAgent c)\<rparr>
                       in Returns (Inr req3)))))"

text \<open>\<^verbatim>\<open>body\<close> is an \<^verbatim>\<open>io.Reader\<close> that may be nil.\<close>

definition NewMultiPartRequest ::
  "('b, 'v, 'w) httpx_lib \<Rightarrow> Client \<Rightarrow> string \<Rightarrow> string \<Rightarrow> Reader option \<Rightarrow> string \<Rightarrow>
   (error + http_Request) outcome" where
  "NewMultiPartRequest lib c method urlStr body contentType =
     (if body = None then
        Returns (Inl (errors_New ''httpx new multi part request error: expected not nil body''))
      else if \<not> strings_HasPrefix urlStr ''/'' then
        Returns (Inl (errors_New
          (''httpx new multi part request error: url must have a preceding slash, but '' @
           strconv_Quote lib urlStr @ '' does not'')))
      else
        case URL_Parse lib (BaseURL c) urlStr of
          Panics \<Rightarrow> Panics
        | Returns (Inl err) \<Rightarrow>
            Returns (Inl (wrapError ''httpx new multi part request error: '' err))
        | Returns (Inr u) \<Rightarrow>
           (case http_NewRequest lib method (URL_String lib u) body of
              Inl err \<Rightarrow> Returns (Inl (wrapError ''httpx new multi part request error: '' err))
            | Inr req0 \<Rightarrow>
               (let req1 = req0\<lparr>Header := Header_Set (Header req0) ''Content-Type'' contentType\<rparr>;
                    req2 = req1\<lparr>Header := Header_Set (Header req1) ''Accept'' ''application/json''\<rparr>;
                    req3 = req2\<lparr>Header := Header_Set (Header req2) ''User-Agent'' (UserAgent c)\<rparr>
                in Returns (Inr req3))))"

subsection \<open>Response and Do\<close>

text \<open>\<^verbatim>\<open>Response\<close> embeds the \<^verbatim>\<open>*http.Response\<close> and adds \<^verbatim>\<open>ErrMessage\<close>.\<close>

record Response =
  Response :: http_Response
  ErrMessage :: string

definition HasError :: "Response \<Rightarrow> bool" where
  "HasError r = (400 \<le> StatusCode (Response r) \<and> StatusCode (Response r) \<le> 599)"

text \<open>The verb \<^verbatim>\<open>%d\<close>: an integer in decimal, with a minus sign when negative.\<close>

fun decimal :: "nat \<Rightarrow> string" where
  "decimal n =
     (if n < 10 then [''0123456789'' ! n]
      else decimal (n div 10) @ [''0123456789'' ! (n mod 10)])"

definition fmt_d :: "int \<Rightarrow> string" where
  "fmt_d i = (if i < 0 then CHR ''-'' # decimal (nat (- i)) else decimal (nat i))"

text \<open>The verb \<^verbatim>\<open>%v\<close> on a \<^verbatim>\<open>*url.URL\<close>: its \<^verbatim>\<open>String()\<close>, and \<^verbatim>\<open><nil>\<close> for the nil
  pointer.\<close>

definition fmt_v_URL :: "('b, 'v, 'w) httpx_lib \<Rightarrow> URL option \<Rightarrow> string" where
  "fmt_v_URL lib u = (case u of None \<Rightarrow> ''<nil>'' | Some x \<Rightarrow> URL_String lib x)"

text \<open>\<^verbatim>\<open>Response.Error\<close>, the format \<^verbatim>\<open>"%v %v: %d %v"\<close>. The arguments
  \<^verbatim>\<open>r.Response.Request.Method\<close> and \<^verbatim>\<open>r.Response.Request.URL\<close> dereference the request
  pointer of the response: a panic when it is nil.\<close>

definition Error :: "('b, 'v, 'w) httpx_lib \<Rightarrow> Response \<Rightarrow> string outcome" where
  "Error lib r =
     (case Request (Response r) of
        None \<Rightarrow> Panics
      | Some rq \<Rightarrow>
          Returns (Method rq @ '' '' @ fmt_v_URL lib (URL rq) @ '': '' @
                   fmt_d (StatusCode (Response r)) @ '' '' @ ErrMessage r))"

text \<open>The value behind the \<^verbatim>\<open>error\<close> that \<^verbatim>\<open>Do\<close> returns: an ordinary error, or the
  \<^verbatim>\<open>*Response\<close> itself.\<close>

datatype error_value = Err error | AsError Response

text \<open>The argument \<^verbatim>\<open>v interface{}\<close> of \<^verbatim>\<open>Do\<close>: nil, a value that implements
  \<^verbatim>\<open>io.Writer\<close> (with the writer's state), or anything else, which is handed to the
  JSON decoder.\<close>

datatype ('w, 'v) target = NilTarget | WriterTarget 'w | DecodeTarget 'v

text \<open>\<^verbatim>\<open>Do\<close> returns the pair \<^verbatim>\<open>(*Response, error)\<close> and leaves the target in a new
  state. The type switch on \<open>v\<close> comes after the nil check, so its nil branch is
  never reached. (The deferred \<^verbatim>\<open>resp.Body.Close()\<close> is not part of the model.)\<close>

definition Do ::
  "('b, 'v, 'w) httpx_lib \<Rightarrow> Client \<Rightarrow> Context \<Rightarrow> http_Request \<Rightarrow> ('w, 'v) target \<Rightarrow>
   (Response option \<times> error_value option) \<times> ('w, 'v) target" where
  "Do lib c ctx req v =
     (if v = NilTarget then ((None, Some (Err (errors_New ''v must not nil''))), v)
      else
        case httpClient c req of
          Inl err \<Rightarrow>
            (case ctx of
               Some cerr \<Rightarrow> ((None, Some (Err (wrapError ''httpx do error: '' cerr))), v)
             | None \<Rightarrow> ((None, Some (Err (wrapError ''httpx do error: '' err))), v))
        | Inr resp \<Rightarrow>
           (let response = \<lparr>Response = resp, ErrMessage = []\<rparr> in
            if HasError response then
              (case ioutil_ReadAll (Body resp) of
                 (body, Some err) \<Rightarrow> ((None, Some (Err (wrapError ''httpx do error: '' err))), v)
               | (body, None) \<Rightarrow> ((None, Some (AsError (response\<lparr>ErrMessage := body\<rparr>))), v))
            else
              (case v of
                 WriterTarget w \<Rightarrow>
                   (case io_Copy lib w (Body resp) of
                      (w', n, cerr) \<Rightarrow> ((Some response, None), WriterTarget w'))
               | DecodeTarget x \<Rightarrow>
                   (case json_Decode lib (Body resp) x of
                      (x', Some err) \<Rightarrow>
                        if \<not> errors_Is_EOF err
                        then ((Some response, Some (Err err)), DecodeTarget x')
                        else ((Some response, None), DecodeTarget x')
                    | (x', None) \<Rightarrow> ((Some response, None), DecodeTarget x'))
               | NilTarget \<Rightarrow> ((None, Some (Err (errors_New ''v must not nil''))), v))))"

section \<open>Package auth: the authenticating transport (src/unnamed/part\_000)\<close>

subsection \<open>A store for requests, header maps, string slices and URLs\<close>

text \<open>
  \<^verbatim>\<open>RoundTrip\<close> receives a pointer to a request that its caller keeps, so sharing
  matters: requests, header maps (a Go map is a reference) and the backing arrays of
  the \<^verbatim>\<open>[]string\<close> values live in a store. New objects are placed at \<open>next_addr\<close>,
  so every address below \<open>next_addr\<close> is an object that existed before.
  A slice is nil or a window (offset, length) on a backing array.
  The \<^verbatim>\<open>URL\<close> field of a request points to a \<^verbatim>\<open>url.URL\<close> object of the store. The body
  is a pointer that the code only copies; the stream behind it is not in the store
  (the underlying transport reads it).
\<close>

type_synonym addr = nat

datatype slice = NilSlice | Slice addr nat nat

type_synonym request_object = "(addr option, addr option, addr option) Request"

record heap =
  requests :: "addr \<rightharpoonup> request_object"
  headers :: "addr \<Rightarrow> (string \<times> slice) list"
  arrays :: "addr \<Rightarrow> string list"
  urls :: "addr \<Rightarrow> URL"
  next_addr :: addr



definition new_array :: "heap \<Rightarrow> string list \<Rightarrow> heap \<times> addr" where
  "new_array h xs =
     (h\<lparr>arrays := (arrays h)(next_addr h := xs), next_addr := Suc (next_addr h)\<rparr>,
      next_addr h)"

definition slice_elems :: "heap \<Rightarrow> slice \<Rightarrow> string list" where
  "slice_elems h s =
     (case s of
        NilSlice \<Rightarrow> []
      | Slice a off n \<Rightarrow> take n (drop off (arrays h a)))"


text \<open>The assignment \<^verbatim>\<open>m[k] = v\<close> on the map at address \<open>m\<close>.\<close>

definition map_assign :: "heap \<Rightarrow> addr \<Rightarrow> string \<Rightarrow> slice \<Rightarrow> heap" where
  "map_assign h m k v = h\<lparr>headers := (headers h)(m := AList.update k v (headers h m))\<rparr>"

text \<open>What \<^verbatim>\<open>req.Header[k]\<close> reads through a header field: the strings of the value
  list, when the key is present (a nil map has no keys).\<close>

definition Header_lookup :: "heap \<Rightarrow> addr option \<Rightarrow> string \<Rightarrow> string list option" where
  "Header_lookup h hdr k =
     (case hdr of
        None \<Rightarrow> None
      | Some m \<Rightarrow> map_option (slice_elems h) (map_of (headers h m) k))"

subsection \<open>cloneRequest\<close>



subsection \<open>Token, TokenSource and TokenAuthTransport\<close>

text \<open>The interface \<^verbatim>\<open>Token\<close>: its two methods. \<^verbatim>\<open>Valid\<close> depends on the clock;
  \<^verbatim>\<open>SetAuthorization\<close> works on the store through the request pointer it is given.\<close>

record Token =
  Token_Valid :: "int64 \<Rightarrow> bool"
  Token_SetAuthorization :: "heap \<Rightarrow> addr \<Rightarrow> heap \<times> unit outcome"

text \<open>\<^verbatim>\<open>http.Header.Set\<close> through a header field: a one-element value list is built
  and assigned; assigning into a nil map panics.\<close>

definition heap_Header_Set :: "heap \<Rightarrow> addr option \<Rightarrow> string \<Rightarrow> string \<Rightarrow> heap \<times> unit outcome" where
  "heap_Header_Set h hdr k v =
     (case hdr of
        None \<Rightarrow> (h, Panics)
      | Some m \<Rightarrow> (let (h1, a) = new_array h [v] in (map_assign h1 m k (Slice a 0 1), Returns ())))"

text \<open>\<^verbatim>\<open>JWTToken.SetAuthorization\<close>; both the receiver and the request are pointers
  that the method dereferences.\<close>

definition SetAuthorization :: "JWTToken option \<Rightarrow> heap \<Rightarrow> addr \<Rightarrow> heap \<times> unit outcome" where
  "SetAuthorization t h req =
     (case requests h req of
        None \<Rightarrow> (h, Panics)
      | Some R \<Rightarrow>
         (case t of
            None \<Rightarrow> (h, Panics)
          | Some T \<Rightarrow> heap_Header_Set h (Header R) ''Authorization'' (''Token '' @ token T)))"






subsection \<open>Notions for stating what a dispatch leaves alone\<close>

text \<open>Every object of \<open>h\<close> is found unchanged in \<open>h'\<close>.\<close>

definition preserves :: "heap \<Rightarrow> heap \<Rightarrow> bool" where
  "preserves h h' \<longleftrightarrow>
     next_addr h \<le> next_addr h' \<and>
     (\<forall>a. a < next_addr h \<longrightarrow>
        requests h' a = requests h a \<and> headers h' a = headers h a \<and>
        arrays h' a = arrays h a \<and> urls h' a = urls h a)"

definition slice_below :: "addr \<Rightarrow> slice \<Rightarrow> bool" where
  "slice_below n s = (case s of NilSlice \<Rightarrow> True | Slice a off len \<Rightarrow> a < n)"


text \<open>A store as Go builds it: requests, their header maps and the backing arrays of
  the header values are allocated objects, and a map holds a key once.\<close>

definition heap_ok :: "heap \<Rightarrow> bool" where
  "heap_ok h \<longleftrightarrow>
     (\<forall>a R. requests h a = Some R \<longrightarrow>
        a < next_addr h \<and> (\<forall>m. Header R = Some m \<longrightarrow> m < next_addr h)) \<and>
     (\<forall>m. m < next_addr h \<longrightarrow>
        distinct (map fst (headers h m)) \<and>
        (\<forall>e \<in> set (headers h m). slice_below (next_addr h) (snd e)))"




section \<open>Concrete inputs for the examples\<close>

text \<open>
  The answers of the Go standard library to package auth on the inputs of the examples
  below (and an error on every other input): \<^verbatim>\<open>e30=\<close> is the base64url text of \<^verbatim>\<open>{}\<close>,
  \<^verbatim>\<open>eyJleHAiOjEwMH0=\<close> of \<^verbatim>\<open>{"exp":100}\<close> and \<^verbatim>\<open>eyJleHAiOiJ4In0=\<close> of
  \<^verbatim>\<open>{"exp":"x"}\<close>. On amd64 an unrepresentable conversion gives the least int64.
\<close>

definition lib_table :: auth_lib where
  \<open>lib_table =
     \<lparr>DecodeString = (\<lambda>s.
        if s = ''e30='' then Inr ''{}''
        else if s = ''eyJleHAiOjEwMH0='' then Inr ''{"exp":100}''
        else if s = ''eyJleHAiOiJ4In0='' then Inr ''{"exp":"x"}''
        else Inl (External ''illegal base64 data'')),
      Unmarshal = (\<lambda>b.
        if b = ''{}'' then Inr Map.empty
        else if b = ''{"exp":100}'' then Inr [''exp'' \<mapsto> JNumber 100]
        else if b = ''{"exp":"x"}'' then Inr [''exp'' \<mapsto> JString ''x'']
        else Inl (External ''invalid character'')),
      int64_unrepresentable = (\<lambda>f. - (2 ^ 63))\<rparr>\<close>

text \<open>
  The standard library for the client examples: \<^verbatim>\<open>%q\<close> puts plain text between
  double quotes; the decoder reports \<^verbatim>\<open>io.EOF\<close> on an empty stream and stores nothing;
  the writer is a buffer, to which \<^verbatim>\<open>io.Copy\<close> appends what the stream delivers
  before it reports the stream's failure (a clean end is no error). The other entries
  are not used.
\<close>

definition http_lib_table :: "(string, string, string) httpx_lib" where
  "http_lib_table =
     \<lparr>strconv_Quote = (\<lambda>s. [CHR 0x22] @ s @ [CHR 0x22]),
      URL_Parse = (\<lambda>base ref. Returns (Inl (External ''not in the table''))),
      URL_Query = (\<lambda>u. []),
      Values_Encode = (\<lambda>q. []),
      URL_String = (\<lambda>u. Scheme u @ ''://'' @ Host u @ Path u),
      json_Encode = (\<lambda>b. Inl (External ''not in the table'')),
      http_NewRequest = (\<lambda>m u b. Inl (External ''not in the table'')),
      json_Decode = (\<lambda>r v.
        if content r = [] \<and> snd (ioutil_ReadAll r) = None then (v, Some io_EOF)
        else (v, Some (External ''not in the table''))),
      io_Copy = (\<lambda>w r. (w @ content r, int (length (content r)), snd (ioutil_ReadAll r)))\<rparr>"

definition sample_request :: http_Request where
  "sample_request =
     \<lparr>Method = ''GET'',
      URL = Some \<lparr>Scheme = ''http'', Host = ''api.test'', Path = ''/users'', RawQuery = []\<rparr>,
      Header = [], ReqBody = None\<rparr>"

definition sample_response :: "int \<Rightarrow> Reader \<Rightarrow> http_Response" where
  "sample_response code body =
     \<lparr>StatusCode = code, Body = body, Request = Some sample_request\<rparr>"

text \<open>A response as a \<^verbatim>\<open>RoundTripper\<close> builds it that fills in the status and the body
  only.\<close>

definition bare_response :: "int \<Rightarrow> Reader \<Rightarrow> http_Response" where
  "bare_response code body = \<lparr>StatusCode = code, Body = body, Request = None\<rparr>"

text \<open>A client whose HTTP client gives the same answer to every request.\<close>

definition sample_client :: "(error + http_Response) \<Rightarrow> Client" where
  "sample_client answer =
     \<lparr>BaseURL = Some \<lparr>Scheme = ''http'', Host = ''api.test'', Path = [], RawQuery = []\<rparr>,
      UserAgent = ''httpx'', httpClient = (\<lambda>req. answer)\<rparr>"

definition no_URL :: URL where
  "no_URL = \<lparr>Scheme = [], Host = [], Path = [], RawQuery = []\<rparr>"

text \<open>A store with one request (at address 0) whose header map (at 1) holds
  \<^verbatim>\<open>Accept: application/json\<close>, the value list living in the array at 2, and whose
  URL (at 3) is \<^verbatim>\<open>http://api.test/users\<close>.\<close>

definition sample_stored_request :: request_object where
  "sample_stored_request =
     \<lparr>Method = ''GET'', URL = Some 3, Header = Some 1, ReqBody = None\<rparr>"

definition sample_heap :: heap where
  "sample_heap =
     \<lparr>requests = [0 \<mapsto> sample_stored_request],
      headers = (\<lambda>a. [])(1 := [(''Accept'', Slice 2 0 1)]),
      arrays = (\<lambda>a. [])(2 := [''application/json'']),
      urls = (\<lambda>a. no_URL)
        (3 := \<lparr>Scheme = ''http'', Host = ''api.test'', Path = ''/users'', RawQuery = []\<rparr>),
      next_addr = 4\<rparr>"

text \<open>A store with one request whose header map is nil, as in the literal
  \<^verbatim>\<open>&http.Request{Method: "GET"}\<close>.\<close>

definition bare_heap :: heap where
  "bare_heap =
     \<lparr>requests = [0 \<mapsto> \<lparr>Method = ''GET'', URL = None, Header = None, ReqBody = None\<rparr>],
      headers = (\<lambda>a. []),
      arrays = (\<lambda>a. []),
      urls = (\<lambda>a. no_URL),
      next_addr = 1\<rparr>"

definition sample_token :: JWTToken where
  "sample_token = \<lparr>token = ''a.b.c'', expiredAt = 100\<rparr>"





section \<open>Properties of the JWT token\<close>

subsection \<open>Splitting, padding, integer conversion\<close>

lemma length_strings_Split: "length (strings_Split s c) = Suc (count_list s c)"
  by (induction s) (auto split: list.splits)

lemma strings_Split_three_nonempty: "strings_Split tok c = [h, p, s] \<Longrightarrow> tok \<noteq> []"
  by (cases tok) auto

lemma length_padded: "length (padded p) mod 4 = 0"
proof -
  have "(length p + (4 - length p mod 4)) mod 4 = 0" by presburger
  then show ?thesis by (simp add: padded_def strings_Repeat_def Let_def)
qed

lemma sint_plus_10:
  assumes "sint (now :: int64) + 10 < 2 ^ 63"
  shows "sint (now + 10) = sint now + 10"
proof -
  have lo: "- (2 ^ 63) \<le> sint now" using sint_ge [of now] by simp
  have "sint (now + 10) = signed_take_bit 63 (sint now + sint (10 :: int64))"
    by (simp add: sint_word_ariths)
  also have "sint (10 :: int64) = 10" by simp
  also have "signed_take_bit 63 (sint now + 10) = sint now + 10"
    using lo assms by (intro signed_take_bit_int_eq_self) auto
  finally show ?thesis .
qed

lemma sint_word_of_int_int64:
  "- (2 ^ 63) \<le> T \<Longrightarrow> T < 2 ^ 63 \<Longrightarrow> sint (word_of_int T :: int64) = T"
  by (simp add: sint_sbintrunc' signed_take_bit_int_eq_self)

lemma word_of_int_int64_eq_0:
  assumes "- (2 ^ 63) \<le> T" and "T < 2 ^ 63"
  shows "(word_of_int T :: int64) = 0 \<longleftrightarrow> T = 0"
proof
  assume "(word_of_int T :: int64) = 0"
  then have "sint (word_of_int T :: int64) = 0" by simp
  then show "T = 0" using assms by (simp add: sint_word_of_int_int64)
qed simp

lemma truncate_real_of_int: "truncate_real (of_int T) = T"
  by (simp add: truncate_real_def)

lemma float64_to_int64_in_range:
  "- (2 ^ 63) \<le> truncate_real f \<Longrightarrow> truncate_real f < 2 ^ 63 \<Longrightarrow>
   float64_to_int64 lib f = word_of_int (truncate_real f)"
  by (simp add: float64_to_int64_def)

subsection \<open>What NewJWTToken returns\<close>

lemma NewJWTToken_number:
  assumes "strings_Split tok CHR ''.'' = [h, p, s]"
    and "DecodeString lib (padded p) = Inr b"
    and "Unmarshal lib b = Inr m"
    and "m ''exp'' = Some (JNumber f)"
  shows "NewJWTToken lib tok = Returns (Inr \<lparr>token = tok, expiredAt = float64_to_int64 lib f\<rparr>)"
  using assms by (simp add: NewJWTToken_def SetExpireTime_def)

lemma NewJWTToken_no_exp:
  assumes "strings_Split tok CHR ''.'' = [h, p, s]"
    and "DecodeString lib (padded p) = Inr b"
    and "Unmarshal lib b = Inr m"
    and "m ''exp'' = None"
  shows "NewJWTToken lib tok = Returns (Inr \<lparr>token = tok, expiredAt = 0\<rparr>)"
  using assms by (simp add: NewJWTToken_def SetExpireTime_def)

lemma NewJWTToken_segments:
  assumes "length (strings_Split tok CHR ''.'') \<noteq> 3"
  shows "NewJWTToken lib tok =
    Returns (Inl (wrapError ''new jwt token error: '' (errors_New ''need jwt token'')))"
  using assms by (simp add: NewJWTToken_def SetExpireTime_def)

text \<open>An \<^verbatim>\<open>exp\<close> entry that is not a number makes the type assertion panic, whatever
  the library is.\<close>

lemma NewJWTToken_panics:
  assumes "strings_Split tok CHR ''.'' = [h, p, s]"
    and "DecodeString lib (padded p) = Inr b"
    and "Unmarshal lib b = Inr m"
    and "m ''exp'' = Some v" and "\<forall>f. v \<noteq> JNumber f"
  shows "NewJWTToken lib tok = Panics"
  using assms by (cases v) (simp_all add: NewJWTToken_def SetExpireTime_def)

lemma Valid_iff:
  "Valid now (Some t) \<longleftrightarrow>
     token t \<noteq> [] \<and> expiredAt t \<noteq> 0 \<and> sint (now + 10) \<le> sint (expiredAt t)"
  by (auto simp: Valid_def almostExpired_def)

lemma Valid_nil: "Valid now None = False"
  by (simp add: Valid_def)

subsection \<open>The claims about the token\<close>

text \<open>
  C1, as amended. A token is built from a compact token with three segments whose
  payload decodes to an object with a numeric \<^verbatim>\<open>exp\<close> field \<open>T\<close>. Let \<open>E\<close> be \<open>T\<close>
  with its fraction dropped; suppose \<open>E\<close> is not 0 and fits an int64, and the clock is
  more than ten seconds below the largest int64. Then \<^verbatim>\<open>NewJWTToken\<close> returns the
  token with expiry \<open>E\<close>, and \<^verbatim>\<open>Valid\<close> is true exactly at the times \<open>now\<close> with
  \<open>now + 10 \<le> E\<close>: for a whole number \<open>T\<close>, at every time at or before \<open>T - 10\<close>, and
  at no time after \<open>T - 10\<close>.
\<close>

theorem JWTToken_Valid_up_to_margin:
  assumes "strings_Split tok CHR ''.'' = [h, p, s]"
    and "DecodeString lib (padded p) = Inr b"
    and "Unmarshal lib b = Inr m"
    and "m ''exp'' = Some (JNumber T)"
    and "truncate_real T \<noteq> 0"
    and "- (2 ^ 63) \<le> truncate_real T" and "truncate_real T < 2 ^ 63"
    and "sint now + 10 < 2 ^ 63"
  shows "NewJWTToken lib tok =
           Returns (Inr \<lparr>token = tok, expiredAt = word_of_int (truncate_real T)\<rparr>) \<and>
         (Valid now (Some \<lparr>token = tok, expiredAt = word_of_int (truncate_real T)\<rparr>) \<longleftrightarrow>
            sint now + 10 \<le> truncate_real T)"
proof -
  let ?E = "truncate_real T"
  have built: "NewJWTToken lib tok = Returns (Inr \<lparr>token = tok, expiredAt = word_of_int ?E\<rparr>)"
    using NewJWTToken_number [OF assms(1-4)] assms(6,7)
    by (simp add: float64_to_int64_in_range)
  have ne: "tok \<noteq> []" using assms(1) by (rule strings_Split_three_nonempty)
  have nz: "(word_of_int ?E :: int64) \<noteq> 0"
    using assms(5-7) by (simp add: word_of_int_int64_eq_0)
  have "Valid now (Some \<lparr>token = tok, expiredAt = word_of_int ?E\<rparr>) \<longleftrightarrow> sint now + 10 \<le> ?E"
    using ne nz assms(6-8) by (simp add: Valid_iff sint_plus_10 sint_word_of_int_int64)
  with built show ?thesis by simp
qed

text \<open>The token \<^verbatim>\<open>a.eyJleHAiOjEwMH0.b\<close> carries \<^verbatim>\<open>{"exp":100}\<close>: it is valid at the
  times 89 and 90 and not valid at 91.\<close>

theorem JWTToken_Valid_up_to_margin_witness:
  \<open>NewJWTToken lib_table ''a.eyJleHAiOjEwMH0.b'' =
     Returns (Inr \<lparr>token = ''a.eyJleHAiOjEwMH0.b'', expiredAt = 100\<rparr>) \<and>
   Valid 89 (Some \<lparr>token = ''a.eyJleHAiOjEwMH0.b'', expiredAt = 100\<rparr>) \<and>
   Valid 90 (Some \<lparr>token = ''a.eyJleHAiOjEwMH0.b'', expiredAt = 100\<rparr>) \<and>
   \<not> Valid 91 (Some \<lparr>token = ''a.eyJleHAiOjEwMH0.b'', expiredAt = 100\<rparr>)\<close>
proof -
  have h1: \<open>strings_Split ''a.eyJleHAiOjEwMH0.b'' CHR ''.'' = [''a'', ''eyJleHAiOjEwMH0'', ''b'']\<close>
    by simp
  have h2: \<open>DecodeString lib_table (padded ''eyJleHAiOjEwMH0'') = Inr ''{"exp":100}''\<close>
    by (simp add: padded_def strings_Repeat_def lib_table_def)
  have h3: \<open>Unmarshal lib_table ''{"exp":100}'' = Inr [''exp'' \<mapsto> JNumber 100]\<close>
    by (simp add: lib_table_def)
  have h4: \<open>[''exp'' \<mapsto> JNumber 100] ''exp'' = Some (JNumber 100)\<close>
    by simp
  have t: "truncate_real 100 = 100" by (simp add: truncate_real_def)
  note th = JWTToken_Valid_up_to_margin [OF h1 h2 h3 h4]
  from th [of 89] th [of 90] th [of 91] show ?thesis by (simp add: t)
qed

text \<open>C1 as it is stated fails at the boundary: with \<^verbatim>\<open>exp\<close> = 100 and the clock at
  90 = 100 - 10 the claim asks for false, and \<^verbatim>\<open>Valid\<close> is true
  (\<^verbatim>\<open>90 + 10 > 100\<close> does not hold).\<close>

theorem JWTToken_Valid_boundary_counterexample:
  "NewJWTToken lib_table ''a.eyJleHAiOjEwMH0.b'' =
     Returns (Inr \<lparr>token = ''a.eyJleHAiOjEwMH0.b'', expiredAt = 100\<rparr>) \<and>
   Valid 90 (Some \<lparr>token = ''a.eyJleHAiOjEwMH0.b'', expiredAt = 100\<rparr>) = True"
  by (simp add: NewJWTToken_def SetExpireTime_def padded_def strings_Repeat_def lib_table_def
      float64_to_int64_def truncate_real_def Valid_def almostExpired_def)

text \<open>
  C4. A token built from a token string whose decoded payload object has no \<^verbatim>\<open>exp\<close>
  field keeps the expiry 0 and is not valid at any time; and when the string does not
  split at its dots into exactly three segments, \<^verbatim>\<open>NewJWTToken\<close> returns an error and
  no token.
\<close>

theorem JWTToken_without_exp_never_valid:
  "(strings_Split tok CHR ''.'' = [h, p, s] \<and> DecodeString lib (padded p) = Inr b \<and>
    Unmarshal lib b = Inr m \<and> m ''exp'' = None \<longrightarrow>
      NewJWTToken lib tok = Returns (Inr \<lparr>token = tok, expiredAt = 0\<rparr>) \<and>
      (\<forall>now. \<not> Valid now (Some \<lparr>token = tok, expiredAt = 0\<rparr>))) \<and>
   (length (strings_Split tok' CHR ''.'') \<noteq> 3 \<longrightarrow>
      NewJWTToken lib tok' =
        Returns (Inl (wrapError ''new jwt token error: '' (errors_New ''need jwt token''))))"
  using NewJWTToken_no_exp [of tok h p s lib b m] NewJWTToken_segments [of tok' lib]
  by (simp add: Valid_iff)

text \<open>The token \<^verbatim>\<open>a.e30.b\<close> carries the empty object; \<^verbatim>\<open>a.b\<close> has two segments and
  \<^verbatim>\<open>a.b.c.d\<close> has four.\<close>

theorem JWTToken_without_exp_never_valid_witness:
  "NewJWTToken lib_table ''a.e30.b'' = Returns (Inr \<lparr>token = ''a.e30.b'', expiredAt = 0\<rparr>) \<and>
   (\<forall>now. \<not> Valid now (Some \<lparr>token = ''a.e30.b'', expiredAt = 0\<rparr>)) \<and>
   NewJWTToken lib_table ''a.b'' =
     Returns (Inl (wrapError ''new jwt token error: '' (errors_New ''need jwt token''))) \<and>
   NewJWTToken lib_table ''a.b.c.d'' =
     Returns (Inl (wrapError ''new jwt token error: '' (errors_New ''need jwt token'')))"
proof -
  have h1: "strings_Split ''a.e30.b'' CHR ''.'' = [''a'', ''e30'', ''b'']" by simp
  have h2: "DecodeString lib_table (padded ''e30'') = Inr ''{}''"
    by (simp add: padded_def strings_Repeat_def lib_table_def)
  have h3: "Unmarshal lib_table ''{}'' = Inr Map.empty" by (simp add: lib_table_def)
  have two: "length (strings_Split ''a.b'' CHR ''.'') \<noteq> 3" by simp
  have four: "length (strings_Split ''a.b.c.d'' CHR ''.'') \<noteq> 3" by simp
  from JWTToken_without_exp_never_valid
         [of "''a.e30.b''" "''a''" "''e30''" "''b''" lib_table "''{}''" Map.empty "''a.b''"]
       JWTToken_without_exp_never_valid
         [of "''a.e30.b''" "''a''" "''e30''" "''b''" lib_table "''{}''" Map.empty "''a.b.c.d''"]
       h1 h2 h3 two four
  show ?thesis by simp
qed

text \<open>
  C9. \<^verbatim>\<open>NewJWTToken\<close> does not return on every input: the token
  \<^verbatim>\<open>a.eyJleHAiOiJ4In0.b\<close> has three segments and its payload is the JSON object
  \<^verbatim>\<open>{"exp":"x"}\<close>, whose \<^verbatim>\<open>exp\<close> is a string; the type assertion panics.
\<close>

theorem NewJWTToken_panics_on_string_exp:
  "NewJWTToken lib_table ''a.eyJleHAiOiJ4In0.b'' = Panics"
  by (simp add: NewJWTToken_def SetExpireTime_def padded_def strings_Repeat_def lib_table_def)

section \<open>Properties of the API client\<close>

subsection \<open>Building requests\<close>

lemma strings_HasPrefix_slash: "strings_HasPrefix s ''/'' \<longleftrightarrow> (\<exists>t. s = CHR ''/'' # t)"
  by (cases s) (auto simp: strings_HasPrefix_def)

text \<open>
  C6. When the path does not start with \<^verbatim>\<open>/\<close>, \<^verbatim>\<open>NewRequest\<close> and
  \<^verbatim>\<open>NewMultiPartRequest\<close> both return a validation error (for a nil body
  \<^verbatim>\<open>NewMultiPartRequest\<close> reports the missing body, otherwise both report the missing
  slash), and the result is the same whatever the resolver and the base URL are: no URL
  is resolved.
\<close>

theorem request_path_needs_leading_slash:
  assumes "\<not> strings_HasPrefix urlStr ''/''"
  shows "NewRequest lib c method urlStr params body =
           Returns (Inl (errors_New
             (''httpx new request error: url must have a preceding slash, but '' @
              strconv_Quote lib urlStr @ '' does not''))) \<and>
         NewMultiPartRequest lib c method urlStr rbody contentType =
           Returns (Inl (errors_New
             (if rbody = None
              then ''httpx new multi part request error: expected not nil body''
              else ''httpx new multi part request error: url must have a preceding slash, but '' @
                   strconv_Quote lib urlStr @ '' does not''))) \<and>
         NewRequest (lib\<lparr>URL_Parse := parse\<rparr>) (c\<lparr>BaseURL := base\<rparr>) method urlStr params body =
           NewRequest lib c method urlStr params body \<and>
         NewMultiPartRequest (lib\<lparr>URL_Parse := parse\<rparr>) (c\<lparr>BaseURL := base\<rparr>) method urlStr
             rbody contentType =
           NewMultiPartRequest lib c method urlStr rbody contentType"
  using assms by (simp add: NewRequest_def NewMultiPartRequest_def)

text \<open>The path \<^verbatim>\<open>users\<close> has no leading slash.\<close>

theorem request_path_needs_leading_slash_witness:
  \<open>\<not> strings_HasPrefix ''users'' ''/'' \<and>
   NewRequest http_lib_table (sample_client (Inl (External ''unused''))) ''POST'' ''users''
       None (Some ''body'') =
     Returns (Inl (errors_New
       ''httpx new request error: url must have a preceding slash, but "users" does not'')) \<and>
   NewMultiPartRequest http_lib_table (sample_client (Inl (External ''unused''))) ''POST''
       ''users'' (Some \<lparr>content = ''data'', failure = None\<rparr>) ''multipart/form-data'' =
     Returns (Inl (errors_New
       ''httpx new multi part request error: url must have a preceding slash, but "users" does not''))\<close>
proof -
  have h: "\<not> strings_HasPrefix ''users'' ''/''" by (simp add: strings_HasPrefix_def)
  from request_path_needs_leading_slash
         [OF h, of http_lib_table "sample_client (Inl (External ''unused''))" "''POST''" None
            "Some ''body''" "Some \<lparr>content = ''data'', failure = None\<rparr>"
            "''multipart/form-data''"]
  show ?thesis using h by (simp add: http_lib_table_def)
qed

subsection \<open>Executing requests\<close>

lemma sublist_2nd: "sublist b (a @ s1 @ b @ r)"
  using sublist_appendI [of b "a @ s1" r] by simp

lemma sublist_3rd: "sublist c (a @ s1 @ b @ s2 @ c @ r)"
  using sublist_appendI [of c "a @ s1 @ b @ s2" r] by simp

lemma sublist_4th: "sublist d (a @ s1 @ b @ s2 @ c @ s3 @ d)"
  using sublist_appendI [of d "a @ s1 @ b @ s2 @ c @ s3" "[]"] by simp

lemma ioutil_ReadAll_clean:
  "failure r = None \<or> failure r = Some io_EOF \<Longrightarrow> ioutil_ReadAll r = (content r, None)"
  by (auto simp: ioutil_ReadAll_def)

lemma ioutil_ReadAll_failure:
  "failure r = Some e \<Longrightarrow> e \<noteq> io_EOF \<Longrightarrow> ioutil_ReadAll r = (content r, Some e)"
  by (simp add: ioutil_ReadAll_def)

lemma Error_with_request:
  "Request (Response r) = Some rq \<Longrightarrow>
   Error lib r =
     Returns (Method rq @ '' '' @ fmt_v_URL lib (URL rq) @ '': '' @
              fmt_d (StatusCode (Response r)) @ '' '' @ ErrMessage r)"
  by (simp add: Error_def)

text \<open>Without the request pointer there is no message: \<^verbatim>\<open>Error\<close> panics.\<close>

lemma Error_without_request: "Request (Response r) = None \<Longrightarrow> Error lib r = Panics"
  by (simp add: Error_def)

lemma Do_nil_target:
  "Do lib c ctx req NilTarget = ((None, Some (Err (errors_New ''v must not nil''))), NilTarget)"
  by (simp add: Do_def)

lemma Do_application_error:
  assumes "v \<noteq> NilTarget" and "httpClient c req = Inr resp"
    and "400 \<le> StatusCode resp" and "StatusCode resp \<le> 599"
    and "failure (Body resp) = None \<or> failure (Body resp) = Some io_EOF"
  shows "Do lib c ctx req v =
           ((None, Some (AsError \<lparr>Response = resp, ErrMessage = content (Body resp)\<rparr>)), v)"
  using assms(1-4) ioutil_ReadAll_clean [OF assms(5)]
  by (auto simp: Do_def HasError_def Let_def)

lemma Do_application_error_unreadable:
  assumes "v \<noteq> NilTarget" and "httpClient c req = Inr resp"
    and "400 \<le> StatusCode resp" and "StatusCode resp \<le> 599"
    and "failure (Body resp) = Some e" and "e \<noteq> io_EOF"
  shows "Do lib c ctx req v = ((None, Some (Err (wrapError ''httpx do error: '' e))), v)"
  using assms(1-4) ioutil_ReadAll_failure [OF assms(5,6)]
  by (auto simp: Do_def HasError_def Let_def)

text \<open>
  C2, as amended. The request was executed (the target is not nil and the HTTP client
  answered with a response) and the status code is in 400 to 599.
  If the body is read to its clean end, \<^verbatim>\<open>Do\<close> returns no response and, as the
  error, the envelope whose \<^verbatim>\<open>ErrMessage\<close> is the whole body, and the target is left
  as it was; and if the response points to its request \<open>rq\<close>, the message of that error
  is the method of \<open>rq\<close>, the URL of \<open>rq\<close>, the status code in decimal and the body
  text, in this order, so it includes each of them.
  If reading the body ends with an error other than \<^verbatim>\<open>io.EOF\<close>, \<^verbatim>\<open>Do\<close> returns no
  response and that error, wrapped, instead of the envelope.
\<close>

theorem Do_application_error_envelope:
  assumes "v \<noteq> NilTarget" and "httpClient c req = Inr resp"
    and "400 \<le> StatusCode resp" and "StatusCode resp \<le> 599"
  shows "(failure (Body resp) = None \<or> failure (Body resp) = Some io_EOF \<longrightarrow>
            Do lib c ctx req v =
              ((None, Some (AsError \<lparr>Response = resp, ErrMessage = content (Body resp)\<rparr>)), v) \<and>
            (\<forall>rq. Request resp = Some rq \<longrightarrow>
               (\<exists>msg.
                  Error lib \<lparr>Response = resp, ErrMessage = content (Body resp)\<rparr> = Returns msg \<and>
                  msg = Method rq @ '' '' @ fmt_v_URL lib (URL rq) @ '': '' @
                        fmt_d (StatusCode resp) @ '' '' @ content (Body resp) \<and>
                  sublist (Method rq) msg \<and>
                  sublist (fmt_v_URL lib (URL rq)) msg \<and>
                  sublist (fmt_d (StatusCode resp)) msg \<and>
                  sublist (content (Body resp)) msg))) \<and>
         (\<forall>e. failure (Body resp) = Some e \<and> e \<noteq> io_EOF \<longrightarrow>
            Do lib c ctx req v = ((None, Some (Err (wrapError ''httpx do error: '' e))), v))"
proof (intro conjI impI allI)
  assume "failure (Body resp) = None \<or> failure (Body resp) = Some io_EOF"
  then show "Do lib c ctx req v =
      ((None, Some (AsError \<lparr>Response = resp, ErrMessage = content (Body resp)\<rparr>)), v)"
    using assms by (rule Do_application_error [rotated -1])
next
  fix rq assume rq: "Request resp = Some rq"
  let ?msg = "Method rq @ '' '' @ fmt_v_URL lib (URL rq) @ '': '' @
              fmt_d (StatusCode resp) @ '' '' @ content (Body resp)"
  have "Error lib \<lparr>Response = resp, ErrMessage = content (Body resp)\<rparr> = Returns ?msg"
    using rq by (simp add: Error_def)
  moreover have "sublist (Method rq) ?msg" by (rule sublist_append_rightI)
  moreover have "sublist (fmt_v_URL lib (URL rq)) ?msg" by (rule sublist_2nd)
  moreover have "sublist (fmt_d (StatusCode resp)) ?msg" by (rule sublist_3rd)
  moreover have "sublist (content (Body resp)) ?msg" by (rule sublist_4th)
  ultimately show "\<exists>msg.
      Error lib \<lparr>Response = resp, ErrMessage = content (Body resp)\<rparr> = Returns msg \<and>
      msg = Method rq @ '' '' @ fmt_v_URL lib (URL rq) @ '': '' @
            fmt_d (StatusCode resp) @ '' '' @ content (Body resp) \<and>
      sublist (Method rq) msg \<and>
      sublist (fmt_v_URL lib (URL rq)) msg \<and>
      sublist (fmt_d (StatusCode resp)) msg \<and>
      sublist (content (Body resp)) msg"
    by blast
next
  fix e assume "failure (Body resp) = Some e \<and> e \<noteq> io_EOF"
  then have "failure (Body resp) = Some e" and "e \<noteq> io_EOF" by simp_all
  with assms show "Do lib c ctx req v =
      ((None, Some (Err (wrapError ''httpx do error: '' e))), v)"
    by (rule Do_application_error_unreadable)
qed

text \<open>A response 404 with the body \<^verbatim>\<open>not found\<close>: the target keeps its value, and the
  message reads \<^verbatim>\<open>GET http://api.test/users: 404 not found\<close>.\<close>

theorem Do_application_error_envelope_witness:
  "Do http_lib_table
      (sample_client (Inr (sample_response 404 \<lparr>content = ''not found'', failure = None\<rparr>)))
      None sample_request (DecodeTarget ''zero'') =
     ((None, Some (AsError
        \<lparr>Response = sample_response 404 \<lparr>content = ''not found'', failure = None\<rparr>,
         ErrMessage = ''not found''\<rparr>)),
      DecodeTarget ''zero'') \<and>
   Error http_lib_table
     \<lparr>Response = sample_response 404 \<lparr>content = ''not found'', failure = None\<rparr>,
      ErrMessage = ''not found''\<rparr> =
     Returns ''GET http://api.test/users: 404 not found''"
proof -
  let ?resp = "sample_response 404 \<lparr>content = ''not found'', failure = None\<rparr>"
  let ?c = "sample_client (Inr ?resp)"
  have h1: "DecodeTarget ''zero'' \<noteq> (NilTarget :: (string, string) target)" by simp
  have h2: "httpClient ?c sample_request = Inr ?resp" by (simp add: sample_client_def)
  have h3: "400 \<le> StatusCode ?resp" and h4: "StatusCode ?resp \<le> 599"
    by (simp_all add: sample_response_def)
  have body: "failure (Body ?resp) = None" "content (Body ?resp) = ''not found''"
    by (simp_all add: sample_response_def)
  have rq: "Request ?resp = Some sample_request" by (simp add: sample_response_def)
  have parts: "fmt_v_URL http_lib_table (URL sample_request) = ''http://api.test/users''"
    "Method sample_request = ''GET''" "fmt_d (StatusCode ?resp) = ''404''"
    by (simp_all add: http_lib_table_def fmt_v_URL_def sample_response_def sample_request_def
        fmt_d_def)
  from Do_application_error_envelope [OF h1 h2 h3 h4, of http_lib_table None] body rq parts
  show ?thesis by simp
qed

text \<open>C2 as it is stated fails in two ways. When the body cannot be read to its end (a
  response 500 whose body breaks off after \<^verbatim>\<open>par\<close>), \<^verbatim>\<open>Do\<close> returns the wrapped read
  error, not the envelope. And when the response does not point to its request (a
  response 404 built by a \<^verbatim>\<open>RoundTripper\<close> that leaves \<^verbatim>\<open>Request\<close> nil), \<^verbatim>\<open>Do\<close> returns
  the envelope, but asking it for its message panics.\<close>

theorem Do_application_error_counterexample:
  "Do http_lib_table
      (sample_client (Inr (sample_response 500
         \<lparr>content = ''par'', failure = Some (External ''connection reset'')\<rparr>)))
      None sample_request (DecodeTarget ''zero'') =
     ((None, Some (Err (wrapError ''httpx do error: '' (External ''connection reset'')))),
      DecodeTarget ''zero'') \<and>
   Do http_lib_table
      (sample_client (Inr (bare_response 404 \<lparr>content = ''not found'', failure = None\<rparr>)))
      None sample_request (DecodeTarget ''zero'') =
     ((None, Some (AsError
        \<lparr>Response = bare_response 404 \<lparr>content = ''not found'', failure = None\<rparr>,
         ErrMessage = ''not found''\<rparr>)),
      DecodeTarget ''zero'') \<and>
   Error http_lib_table
     \<lparr>Response = bare_response 404 \<lparr>content = ''not found'', failure = None\<rparr>,
      ErrMessage = ''not found''\<rparr> = Panics"
  by (simp add: Do_def sample_client_def sample_response_def bare_response_def HasError_def
      ioutil_ReadAll_def Error_def)

text \<open>
  C5. The request was executed (the target is not nil) and the HTTP client answered
  with an error. Then \<^verbatim>\<open>Do\<close> returns no response; its error wraps the context's error
  when the context is done, and the client's error otherwise.
\<close>

theorem Do_transport_failure:
  assumes "v \<noteq> NilTarget" and "httpClient c req = Inl err"
  shows "Do lib c ctx req v =
           ((None, Some (Err (wrapError ''httpx do error: ''
                               (case ctx of Some cerr \<Rightarrow> cerr | None \<Rightarrow> err)))), v)"
  using assms by (simp add: Do_def split: option.splits)

text \<open>A dial error, once with a cancelled context and once with a live one.\<close>

theorem Do_transport_failure_witness:
  "Do http_lib_table (sample_client (Inl (External ''dial tcp: i/o timeout'')))
      (Some (External ''context canceled'')) sample_request (DecodeTarget ''zero'') =
     ((None, Some (Err (wrapError ''httpx do error: '' (External ''context canceled'')))),
      DecodeTarget ''zero'') \<and>
   Do http_lib_table (sample_client (Inl (External ''dial tcp: i/o timeout'')))
      None sample_request (DecodeTarget ''zero'') =
     ((None, Some (Err (wrapError ''httpx do error: '' (External ''dial tcp: i/o timeout'')))),
      DecodeTarget ''zero'')"
proof -
  let ?c = "sample_client (Inl (External ''dial tcp: i/o timeout''))"
  have h1: "DecodeTarget ''zero'' \<noteq> (NilTarget :: (string, string) target)" by simp
  have h2: "httpClient ?c sample_request = Inl (External ''dial tcp: i/o timeout'')"
    by (simp add: sample_client_def)
  from Do_transport_failure [OF h1 h2, of http_lib_table "Some (External ''context canceled'')"]
       Do_transport_failure [OF h1 h2, of http_lib_table None]
  show ?thesis by simp
qed

text \<open>
  C7. The response is a success (status outside 400 to 599), its body is empty and
  ends cleanly, the target is a decode target, and the decoder answers the empty
  stream as \<^verbatim>\<open>encoding/json\<close> does: with \<^verbatim>\<open>io.EOF\<close>, storing nothing. Then \<^verbatim>\<open>Do\<close>
  returns the response and no error, and the target keeps its value.
\<close>

theorem Do_empty_success_body:
  assumes "httpClient c req = Inr resp"
    and "StatusCode resp < 400 \<or> 599 < StatusCode resp"
    and "Body resp = \<lparr>content = [], failure = None\<rparr>"
    and "json_Decode lib \<lparr>content = [], failure = None\<rparr> x = (x, Some io_EOF)"
  shows "Do lib c ctx req (DecodeTarget x) =
           ((Some \<lparr>Response = resp, ErrMessage = []\<rparr>, None), DecodeTarget x)"
  using assms by (auto simp: Do_def HasError_def Let_def)

text \<open>A response 204 with no body.\<close>

theorem Do_empty_success_body_witness:
  "Do http_lib_table (sample_client (Inr (sample_response 204 \<lparr>content = [], failure = None\<rparr>)))
      None sample_request (DecodeTarget ''zero'') =
     ((Some \<lparr>Response = sample_response 204 \<lparr>content = [], failure = None\<rparr>, ErrMessage = []\<rparr>,
       None),
      DecodeTarget ''zero'')"
proof -
  let ?resp = "sample_response 204 \<lparr>content = [], failure = None\<rparr>"
  have h1: "httpClient (sample_client (Inr ?resp)) sample_request = Inr ?resp"
    by (simp add: sample_client_def)
  have h2: "StatusCode ?resp < 400 \<or> 599 < StatusCode ?resp" by (simp add: sample_response_def)
  have h3: "Body ?resp = \<lparr>content = [], failure = None\<rparr>" by (simp add: sample_response_def)
  have h4: "json_Decode http_lib_table \<lparr>content = [], failure = None\<rparr> ''zero'' =
              (''zero'', Some io_EOF)"
    by (simp add: http_lib_table_def ioutil_ReadAll_def)
  from Do_empty_success_body [OF h1 h2 h3 h4] show ?thesis .
qed

text \<open>
  C10. The response is a success and the target is a writer. Then \<^verbatim>\<open>Do\<close> returns the
  response and a nil error whatever \<^verbatim>\<open>io.Copy\<close> reports: the count and the error of
  the copy are dropped, and only the writer's new state shows what was copied.
\<close>

theorem Do_writer_ignores_copy_error:
  assumes "httpClient c req = Inr resp"
    and "StatusCode resp < 400 \<or> 599 < StatusCode resp"
  shows "fst (Do lib c ctx req (WriterTarget w)) =
           (Some \<lparr>Response = resp, ErrMessage = []\<rparr>, None) \<and>
         snd (Do lib c ctx req (WriterTarget w)) =
           WriterTarget (fst (io_Copy lib w (Body resp)))"
  using assms by (auto simp: Do_def HasError_def Let_def split: prod.splits)

text \<open>A response 200 whose body breaks off after \<^verbatim>\<open>par\<close>: the copy fails, and \<^verbatim>\<open>Do\<close>
  reports success.\<close>

theorem Do_writer_ignores_copy_error_witness:
  "snd (snd (io_Copy http_lib_table []
          \<lparr>content = ''par'', failure = Some (External ''connection reset'')\<rparr>)) =
     Some (External ''connection reset'') \<and>
   Do http_lib_table
      (sample_client (Inr (sample_response 200
         \<lparr>content = ''par'', failure = Some (External ''connection reset'')\<rparr>)))
      None sample_request (WriterTarget []) =
     ((Some \<lparr>Response = sample_response 200
                \<lparr>content = ''par'', failure = Some (External ''connection reset'')\<rparr>,
             ErrMessage = []\<rparr>,
       None),
      WriterTarget ''par'')"
proof -
  let ?resp = "sample_response 200
                 \<lparr>content = ''par'', failure = Some (External ''connection reset'')\<rparr>"
  have h1: "httpClient (sample_client (Inr ?resp)) sample_request = Inr ?resp"
    by (simp add: sample_client_def)
  have h2: "StatusCode ?resp < 400 \<or> 599 < StatusCode ?resp" by (simp add: sample_response_def)
  have cp: "io_Copy http_lib_table [] (Body ?resp) =
              (''par'', 3, Some (External ''connection reset''))"
    by (simp add: http_lib_table_def sample_response_def ioutil_ReadAll_def)
  have cp': "snd (snd (io_Copy http_lib_table []
          \<lparr>content = ''par'', failure = Some (External ''connection reset'')\<rparr>)) =
     Some (External ''connection reset'')"
    by (simp add: http_lib_table_def ioutil_ReadAll_def)
  from Do_writer_ignores_copy_error [OF h1 h2, of http_lib_table None "[]"] cp cp'
  show ?thesis by (simp add: prod_eq_iff)
qed

section \<open>Properties of the authenticating transport\<close>

subsection \<open>Slices and the copy loop\<close>




lemma map_assign_simps [simp]:
  "requests (map_assign h m k v) = requests h"
  "arrays (map_assign h m k v) = arrays h"
  "next_addr (map_assign h m k v) = next_addr h"
  "urls (map_assign h m k v) = urls h"
  "headers (map_assign h m k v) x = (if x = m then AList.update k v (headers h m) else headers h x)"
  by (simp_all add: map_assign_def)

lemma slice_elems_map_assign [simp]:
  "slice_elems (map_assign h m k v) s = slice_elems h s"
  by (cases s) (simp_all add: slice_elems_def)







subsection \<open>cloneRequest builds a copy out of new objects\<close>

lemma Header_lookup_None [simp]: "Header_lookup h None k = None"
  by (simp add: Header_lookup_def)





subsection \<open>Stamping the copy\<close>

lemma preserves_trans: "preserves h h1 \<Longrightarrow> preserves h1 h2 \<Longrightarrow> preserves h h2"
  by (auto simp: preserves_def)




lemma heap_ok_sample_heap: "heap_ok sample_heap"
  unfolding heap_ok_def sample_heap_def sample_stored_request_def
  by (auto simp: slice_below_def split: if_splits)

subsection \<open>The claims about the transport and about stamping\<close>




text \<open>
  C8, as amended. For a request in a well-formed store whose header map is not nil,
  \<^verbatim>\<open>SetAuthorization\<close> returns, and so does a second call; after the first call and
  after the second the request is the same struct and its \<^verbatim>\<open>Authorization\<close> header
  is the single value \<^verbatim>\<open>"Token "\<close> followed by the token's string, which no field of
  the request enters; the whole header reads the same after two calls as after one;
  and the other headers read as before the call.
\<close>

theorem SetAuthorization_idempotent:
  assumes ok: "heap_ok h" and r: "requests h req = Some R" and hd: "Header R = Some m"
  shows "\<exists>h1 h2.
           SetAuthorization (Some T) h req = (h1, Returns ()) \<and>
           SetAuthorization (Some T) h1 req = (h2, Returns ()) \<and>
           requests h1 req = Some R \<and> requests h2 req = Some R \<and>
           Header_lookup h1 (Header R) ''Authorization'' = Some [''Token '' @ token T] \<and>
           Header_lookup h2 (Header R) ''Authorization'' = Some [''Token '' @ token T] \<and>
           (\<forall>k. Header_lookup h2 (Header R) k = Header_lookup h1 (Header R) k) \<and>
           (\<forall>k. k \<noteq> ''Authorization'' \<longrightarrow>
                 Header_lookup h1 (Header R) k = Header_lookup h (Header R) k)"
proof -
  let ?v = "''Token '' @ token T"
  let ?n = "next_addr h"
  let ?g1 = "h\<lparr>arrays := (arrays h)(?n := [?v]), next_addr := Suc ?n\<rparr>"
  let ?h1 = "map_assign ?g1 m ''Authorization'' (Slice ?n 0 1)"
  let ?g2 = "?h1\<lparr>arrays := (arrays ?h1)(Suc ?n := [?v]), next_addr := Suc (Suc ?n)\<rparr>"
  let ?h2 = "map_assign ?g2 m ''Authorization'' (Slice (Suc ?n) 0 1)"
  have s1: "SetAuthorization (Some T) h req = (?h1, Returns ())"
    using r hd by (simp add: SetAuthorization_def heap_Header_Set_def new_array_def)
  have r1: "requests ?h1 req = Some R" using r by simp
  have s2: "SetAuthorization (Some T) ?h1 req = (?h2, Returns ())"
    using r1 hd by (simp add: SetAuthorization_def heap_Header_Set_def new_array_def)
  have r2: "requests ?h2 req = Some R" using r by simp
  have m: "m < ?n" using ok r hd by (auto simp: heap_ok_def)
  have below: "\<forall>e \<in> set (headers h m). slice_below ?n (snd e)"
    using ok m unfolding heap_ok_def by blast
  have old: "slice_elems ?h1 s = slice_elems h s \<and> slice_elems ?h2 s = slice_elems h s"
    if "(k, s) \<in> set (headers h m)" for k s
  proof -
    from below that have "slice_below ?n s" by force
    then show ?thesis by (cases s) (auto simp: slice_elems_def slice_below_def)
  qed
  have l1: "Header_lookup ?h1 (Some m) k =
             (if k = ''Authorization'' then Some [?v] else Header_lookup h (Some m) k)" for k
  proof (cases "map_of (headers h m) k")
    case None
    then show ?thesis by (simp add: Header_lookup_def update_conv' slice_elems_def)
  next
    case (Some s)
    then have "(k, s) \<in> set (headers h m)" by (rule map_of_SomeD)
    from old [OF this] Some show ?thesis
      by (simp add: Header_lookup_def update_conv' slice_elems_def)
  qed
  have l2: "Header_lookup ?h2 (Some m) k =
             (if k = ''Authorization'' then Some [?v] else Header_lookup h (Some m) k)" for k
  proof (cases "map_of (headers h m) k")
    case None
    then show ?thesis by (simp add: Header_lookup_def update_conv' slice_elems_def)
  next
    case (Some s)
    then have "(k, s) \<in> set (headers h m)" by (rule map_of_SomeD)
    from old [OF this] Some show ?thesis
      by (simp add: Header_lookup_def update_conv' slice_elems_def)
  qed
  from s1 s2 r1 r2 l1 l2 show ?thesis
    unfolding hd by (intro exI [of _ ?h1] exI [of _ ?h2]) simp
qed

text \<open>On the request of the sample store, one call and two calls both leave
  \<^verbatim>\<open>Authorization: Token a.b.c\<close> and \<^verbatim>\<open>Accept: application/json\<close>.\<close>

theorem SetAuthorization_idempotent_witness:
  "heap_ok sample_heap \<and>
   requests sample_heap 0 = Some sample_stored_request \<and>
   Header sample_stored_request = Some 1 \<and>
   Header_lookup (fst (SetAuthorization (Some sample_token) sample_heap 0)) (Some 1)
     ''Authorization'' = Some [''Token a.b.c''] \<and>
   Header_lookup
     (fst (SetAuthorization (Some sample_token)
            (fst (SetAuthorization (Some sample_token) sample_heap 0)) 0))
     (Some 1) ''Authorization'' = Some [''Token a.b.c''] \<and>
   Header_lookup
     (fst (SetAuthorization (Some sample_token)
            (fst (SetAuthorization (Some sample_token) sample_heap 0)) 0))
     (Some 1) ''Accept'' = Some [''application/json'']"
proof -
  have req: "requests sample_heap 0 = Some sample_stored_request"
    by (simp add: sample_heap_def)
  have hdr: "Header sample_stored_request = Some 1"
    by (simp add: sample_stored_request_def)
  have before: "Header_lookup sample_heap (Some 1) ''Accept'' = Some [''application/json'']"
    by (simp add: Header_lookup_def sample_heap_def slice_elems_def)
  from SetAuthorization_idempotent [OF heap_ok_sample_heap req hdr, of sample_token]
  obtain h1 h2 where
    s1: "SetAuthorization (Some sample_token) sample_heap 0 = (h1, Returns ())" and
    s2: "SetAuthorization (Some sample_token) h1 0 = (h2, Returns ())" and
    a1: "Header_lookup h1 (Some 1) ''Authorization'' = Some [''Token '' @ token sample_token]" and
    a2: "Header_lookup h2 (Some 1) ''Authorization'' = Some [''Token '' @ token sample_token]" and
    same: "\<forall>k. Header_lookup h2 (Some 1) k = Header_lookup h1 (Some 1) k" and
    others: "\<forall>k. k \<noteq> ''Authorization'' \<longrightarrow>
                 Header_lookup h1 (Some 1) k = Header_lookup sample_heap (Some 1) k"
    unfolding hdr by blast
  have acc: "Header_lookup h2 (Some 1) ''Accept'' = Some [''application/json'']"
    using same others before by simp
  from s1 s2 a1 a2 acc heap_ok_sample_heap req hdr show ?thesis
    by (simp add: sample_token_def)
qed

text \<open>C8 as it is stated fails for a request whose header map is nil:
  \<^verbatim>\<open>SetAuthorization\<close> assigns into the nil map and panics, and the request has no
  \<^verbatim>\<open>Authorization\<close> header after the call.\<close>

theorem SetAuthorization_nil_header_counterexample:
  "SetAuthorization (Some sample_token) bare_heap 0 = (bare_heap, Panics) \<and>
   Header_lookup bare_heap None ''Authorization'' = None"
  by (simp add: SetAuthorization_def heap_Header_Set_def bare_heap_def)

end
